theory Spec2Isabelle
  imports Main
begin

section \<open>Python values, strings and exceptions\<close>

text \<open>
  The program is \<^verbatim>\<open>script.py\<close>: it reads a text file, asks a text-to-text pipeline
  for candidate questions, keeps those a question-answering pipeline can answer from the
  text, prints them and writes them to a file.

  A Python \<^verbatim>\<open>str\<close> is a \<^typ>\<open>string\<close>; each \<^typ>\<open>char\<close> stands for one code point
  in the range U+0000..U+00FF. Exceptions are values: every call that can raise returns
  a sum, \<open>Inl\<close> carrying the exception. Only instances of \<^verbatim>\<open>Exception\<close> are modelled
  (the \<^verbatim>\<open>SystemExit\<close> of \<^verbatim>\<open>exit(1)\<close> is an outcome of \<open>main\<close>, below).
\<close>

datatype exn_class =
    ValueError
  | UnicodeDecodeError
  | FileNotFoundError
  | PermissionError
  | OSError
  | KeyError
  | TypeError
  | AttributeError
  | ImportError
  | RuntimeError

datatype exn = Exn exn_class string

text \<open>\<^verbatim>\<open>str(e)\<close>, as the f-strings of \<open>main\<close> print it.\<close>

fun exn_str :: "exn \<Rightarrow> string" where
  "exn_str (Exn c m) = m"

text \<open>
  What \<^verbatim>\<open>except ValueError\<close> catches: the class and its subclasses
  (\<^verbatim>\<open>UnicodeDecodeError\<close> derives from \<^verbatim>\<open>UnicodeError\<close>, which derives from
  \<^verbatim>\<open>ValueError\<close>).
\<close>

fun is_ValueError :: "exn \<Rightarrow> bool" where
  "is_ValueError (Exn c m) = (c = ValueError \<or> c = UnicodeDecodeError)"

datatype py_value =
    PyNone
  | PyInt int
  | PyStr string
  | PyList "py_value list"
  | PyDict "(string \<times> py_value) list"

abbreviation newline :: char where
  "newline \<equiv> CHR 0x0A"

text \<open>
  \<^verbatim>\<open>str.isspace\<close> on one code point below U+0100: the characters
  \<^verbatim>\<open>str.strip()\<close> removes.
\<close>

definition py_isspace :: "char \<Rightarrow> bool" where
  "py_isspace c =
     (let n = (of_char c :: nat)
      in (9 \<le> n \<and> n \<le> 13) \<or> (28 \<le> n \<and> n \<le> 32) \<or> n = 133 \<or> n = 160)"

text \<open>\<^verbatim>\<open>s.strip()\<close>: leading and trailing whitespace removed.\<close>

definition py_strip :: "string \<Rightarrow> string" where
  "py_strip s = rev (dropWhile py_isspace (rev (dropWhile py_isspace s)))"

text \<open>
  \<^verbatim>\<open>result.get(key, default)\<close>: only a dict has the method; any other value raises
  \<^verbatim>\<open>AttributeError\<close>.
\<close>

fun get_method :: "py_value \<Rightarrow> string \<Rightarrow> py_value \<Rightarrow> exn + py_value" where
  "get_method (PyDict d) key dflt =
     Inr (case map_of d key of None \<Rightarrow> dflt | Some v \<Rightarrow> v)"
| "get_method v key dflt = Inl (Exn AttributeError ''object has no attribute get'')"

text \<open>\<^verbatim>\<open>v.strip()\<close>: only a string has the method.\<close>

fun strip_method :: "py_value \<Rightarrow> exn + string" where
  "strip_method (PyStr s) = Inr (py_strip s)"
| "strip_method v = Inl (Exn AttributeError ''object has no attribute strip'')"

text \<open>\<^verbatim>\<open>str(i)\<close> for the counter of \<^verbatim>\<open>enumerate(answerable_questions, 1)\<close>.\<close>

definition digit_char :: "nat \<Rightarrow> char" where
  "digit_char d = char_of (48 + d)"

function str_nat :: "nat \<Rightarrow> string" where
  "str_nat n = (if n < 10 then [digit_char n] else str_nat (n div 10) @ [digit_char (n mod 10)])"
  by pat_completeness auto
termination
  by (relation "measure id") auto

declare str_nat.simps [simp del]

section \<open>The outside world\<close>

text \<open>
  The two \<^verbatim>\<open>transformers\<close> pipelines and \<^verbatim>\<open>torch.cuda.is_available\<close> are what the
  program is run against. Building a pipeline can raise (weights not found, a missing
  dependency); so can calling it. A built text-to-text pipeline takes the prompt,
  \<^verbatim>\<open>max_new_tokens\<close> and \<^verbatim>\<open>num_return_sequences\<close> and returns a list of dicts; a built
  question-answering pipeline takes the question and the context and returns a value.
\<close>

type_synonym qg_pipeline = "string \<Rightarrow> int \<Rightarrow> int \<Rightarrow> exn + (string \<times> string) list list"

type_synonym qa_pipeline = "string \<Rightarrow> string \<Rightarrow> exn + py_value"

record world =
  cuda_is_available :: bool
  pipeline_qg :: "string \<Rightarrow> int \<Rightarrow> int \<Rightarrow> exn + qg_pipeline"
  pipeline_qa :: "string \<Rightarrow> int \<Rightarrow> exn + qa_pipeline"

text \<open>
  The calls the program makes on the world, in the order it makes them. A claim that
  something happens before any probe, load or model call is a claim about this trace.
\<close>

datatype event =
    CudaProbe
  | LoadPipeline string string int "int option"
  | CallQG string int int
  | CallQA string string

text \<open>
  Files, as the text layer of \<^verbatim>\<open>open(..., encoding="utf-8")\<close> sees them: a path holds a
  text, or something that raises when it is opened and read; a path that holds nothing
  does not exist. \<open>open_w_error\<close> is what \<^verbatim>\<open>open(path, "w")\<close> raises, if it does.
\<close>

datatype file_data = Text string | Unreadable exn

record filesystem =
  files :: "string \<rightharpoonup> file_data"
  open_w_error :: "string \<Rightarrow> exn option"

section \<open>The functions of script.py\<close>

text \<open>
  \<^verbatim>\<open>repr\<close> of a string without quotes or escapes in it, as the messages of
  \<^verbatim>\<open>FileNotFoundError\<close> and \<^verbatim>\<open>KeyError\<close> show a path or a key.
\<close>

definition quoted :: "string \<Rightarrow> string" where
  "quoted s = [CHR 0x27] @ s @ [CHR 0x27]"

definition read_text_file :: "filesystem \<Rightarrow> string \<Rightarrow> exn + string" where
  "read_text_file fs file_path =
     (case files fs file_path of
        None \<Rightarrow>
          Inl (Exn FileNotFoundError (''[Errno 2] No such file or directory: '' @ quoted file_path))
      | Some (Unreadable e) \<Rightarrow> Inl e
      | Some (Text text) \<Rightarrow> Inr text)"

text \<open>The loop of \<open>write_questions\<close>: \<^verbatim>\<open>text_output.write(q + "\n")\<close> for each question.\<close>

fun write_loop :: "string \<Rightarrow> string list \<Rightarrow> string" where
  "write_loop buf [] = buf"
| "write_loop buf (q # questions) = write_loop (buf @ (q @ [newline])) questions"

text \<open>Opening with mode \<^verbatim>\<open>"w"\<close> creates or truncates the file; the loop then fills it.\<close>

definition write_questions :: "filesystem \<Rightarrow> string list \<Rightarrow> string \<Rightarrow> filesystem \<times> (exn + unit)" where
  "write_questions fs questions output_file =
     (case open_w_error fs output_file of
        Some e \<Rightarrow> (fs, Inl e)
      | None \<Rightarrow>
          (fs\<lparr>files := (files fs)(output_file \<mapsto> Text (write_loop [] questions))\<rparr>, Inr ()))"

text \<open>\<^verbatim>\<open>[q["generated_text"] for q in questions]\<close>: a dict without the key raises.\<close>

fun generated_texts :: "(string \<times> string) list list \<Rightarrow> exn + string list" where
  "generated_texts [] = Inr []"
| "generated_texts (d # ds) =
     (case map_of d ''generated_text'' of
        None \<Rightarrow> Inl (Exn KeyError (quoted ''generated_text''))
      | Some t \<Rightarrow>
          (case generated_texts ds of
             Inl e \<Rightarrow> Inl e
           | Inr ts \<Rightarrow> Inr (t # ts)))"

definition invalid_argument :: exn where
  "invalid_argument = Exn ValueError ''num_questions and max_tokens must be >= 1''"

definition generate_questions :: "world \<Rightarrow> string \<Rightarrow> int \<Rightarrow> int \<Rightarrow> event list \<times> (exn + string list)" where
  "generate_questions w text num_questions max_tokens =
     (if num_questions < 1 \<or> max_tokens < 1 then ([], Inl invalid_argument)
      else
        let device = (if cuda_is_available w then 0 else - 1);
            num_beams = max num_questions 4;
            tr = [CudaProbe,
                  LoadPipeline ''text2text-generation'' ''valhalla/t5-base-qg-hl'' device (Some num_beams)]
        in (case pipeline_qg w ''valhalla/t5-base-qg-hl'' device num_beams of
              Inl e \<Rightarrow> (tr, Inl e)
            | Inr qg \<Rightarrow>
                (let prompt = ''generate questions: '' @ text;
                     tr' = tr @ [CallQG prompt max_tokens num_questions]
                 in (case qg prompt max_tokens num_questions of
                       Inl e \<Rightarrow> (tr', Inl e)
                     | Inr questions \<Rightarrow> (tr', generated_texts questions)))))"

text \<open>
  The body of the \<^verbatim>\<open>try\<close> in \<open>filter_answerable_questions\<close>, up to the test
  \<^verbatim>\<open>if answer\<close>: the value says whether the question is appended, an exception
  leaves the body.
\<close>

definition try_body :: "qa_pipeline \<Rightarrow> string \<Rightarrow> string \<Rightarrow> exn + bool" where
  "try_body qa context q =
     (case qa q context of
        Inl e \<Rightarrow> Inl e
      | Inr result \<Rightarrow>
          (case get_method result ''answer'' (PyStr []) of
             Inl e \<Rightarrow> Inl e
           | Inr v \<Rightarrow>
               (case strip_method v of
                  Inl e \<Rightarrow> Inl e
                | Inr answer \<Rightarrow> Inr (answer \<noteq> []))))"

text \<open>
  The \<^verbatim>\<open>for\<close> loop with its handler: \<^verbatim>\<open>except Exception: continue\<close> goes on with the
  next question, the list unchanged.
\<close>

fun filter_loop :: "qa_pipeline \<Rightarrow> string \<Rightarrow> string list \<Rightarrow> string list \<times> event list \<Rightarrow> string list \<times> event list" where
  "filter_loop qa context [] st = st"
| "filter_loop qa context (q # questions) (answerable, tr) =
     (case try_body qa context q of
        Inl e \<Rightarrow> filter_loop qa context questions (answerable, tr @ [CallQA q context])
      | Inr keep \<Rightarrow>
          filter_loop qa context questions
            (if keep then answerable @ [q] else answerable, tr @ [CallQA q context]))"

definition filter_answerable_questions :: "world \<Rightarrow> string list \<Rightarrow> string \<Rightarrow> event list \<times> (exn + string list)" where
  "filter_answerable_questions w questions context =
     (let device = (if cuda_is_available w then 0 else - 1);
          tr = [CudaProbe,
                LoadPipeline ''question-answering'' ''distilbert-base-uncased-distilled-squad'' device None]
      in (case pipeline_qa w ''distilbert-base-uncased-distilled-squad'' device of
            Inl e \<Rightarrow> (tr, Inl e)
          | Inr qa \<Rightarrow>
              (case filter_loop qa context questions ([], tr) of
                 (answerable, tr') \<Rightarrow> (tr', Inr answerable))))"

text \<open>\<^verbatim>\<open>print(f"Question {i}: {q}")\<close> over \<^verbatim>\<open>enumerate(answerable_questions, 1)\<close>.\<close>

fun question_lines :: "nat \<Rightarrow> string list \<Rightarrow> string list" where
  "question_lines i [] = []"
| "question_lines i (q # qs) = (''Question '' @ str_nat i @ '': '' @ q) # question_lines (Suc i) qs"

record args =
  text_file :: string
  output_file :: string
  num_questions :: int
  max_tokens :: int

text \<open>
  How a run of \<open>main\<close> ends: it returns, it leaves through \<^verbatim>\<open>exit(code)\<close>, or an
  exception nobody catches ends the process.
\<close>

datatype outcome = Returned | Exit int | Uncaught exn

record run =
  outcome :: outcome
  stdout :: "string list"
  fs_after :: filesystem
  trace :: "event list"

definition main :: "world \<Rightarrow> filesystem \<Rightarrow> args \<Rightarrow> run" where
  "main w fs a =
     (case read_text_file fs (text_file a) of
        Inl e \<Rightarrow>
          \<lparr>outcome = Exit 1, stdout = [''Error reading file: '' @ exn_str e],
           fs_after = fs, trace = []\<rparr>
      | Inr text \<Rightarrow>
          if py_strip text = [] then
            \<lparr>outcome = Exit 1, stdout = [''Error: input file is empty.''],
             fs_after = fs, trace = []\<rparr>
          else
            (case generate_questions w text (num_questions a) (max_tokens a) of
               (tr, Inl e) \<Rightarrow>
                 if is_ValueError e then
                   \<lparr>outcome = Exit 1, stdout = [''Error generating questions: '' @ exn_str e],
                    fs_after = fs, trace = tr\<rparr>
                 else \<lparr>outcome = Uncaught e, stdout = [], fs_after = fs, trace = tr\<rparr>
             | (tr, Inr questions) \<Rightarrow>
                 (case filter_answerable_questions w questions text of
                    (tr', Inl e) \<Rightarrow>
                      \<lparr>outcome = Uncaught e, stdout = [], fs_after = fs, trace = tr @ tr'\<rparr>
                  | (tr', Inr answerable_questions) \<Rightarrow>
                      (case write_questions fs answerable_questions (output_file a) of
                         (fs', Inl e) \<Rightarrow>
                           \<lparr>outcome = Uncaught e,
                            stdout = question_lines 1 answerable_questions,
                            fs_after = fs', trace = tr @ tr'\<rparr>
                       | (fs', Inr u) \<Rightarrow>
                           \<lparr>outcome = Returned,
                            stdout = question_lines 1 answerable_questions,
                            fs_after = fs', trace = tr @ tr'\<rparr>))))"

section \<open>Notions the properties are stated with\<close>

text \<open>
  The question-answering pipeline \<open>filter_answerable_questions\<close> builds: the model
  name is fixed, the device follows the probe.
\<close>

definition loaded_qa :: "world \<Rightarrow> exn + qa_pipeline" where
  "loaded_qa w =
     pipeline_qa w ''distilbert-base-uncased-distilled-squad'' (if cuda_is_available w then 0 else - 1)"

text \<open>
  A question is answerable when the pipeline, given the question and the context,
  returns a result whose \<^verbatim>\<open>answer\<close> is a string that is not empty once trimmed.
\<close>

definition yields_answer :: "qa_pipeline \<Rightarrow> string \<Rightarrow> string \<Rightarrow> bool" where
  "yields_answer qa context q =
     (case qa q context of
        Inr (PyDict d) \<Rightarrow>
          (case map_of d ''answer'' of
             Some (PyStr s) \<Rightarrow> py_strip s \<noteq> []
           | _ \<Rightarrow> False)
      | _ \<Rightarrow> False)"

text \<open>
  The lines of a text, as a reader of the output file splits it: a line ends at each
  newline; characters after the last newline form a last line.
\<close>

fun lines_of :: "string \<Rightarrow> string list" where
  "lines_of [] = []"
| "lines_of (c # cs) =
     (if c = newline then [] # lines_of cs
      else (case lines_of cs of [] \<Rightarrow> [[c]] | l # ls \<Rightarrow> (c # l) # ls))"

text \<open>The questions put to the question-answering pipeline, read off a trace.\<close>

fun qa_call_of :: "event \<Rightarrow> (string \<times> string) list" where
  "qa_call_of (CallQA q c) = [(q, c)]"
| "qa_call_of e = []"

definition qa_calls :: "event list \<Rightarrow> (string \<times> string) list" where
  "qa_calls tr = concat (map qa_call_of tr)"

text \<open>The beam counts handed to \<^verbatim>\<open>pipeline(..., num_beams=...)\<close>, read off a trace.\<close>

fun num_beams_of :: "event \<Rightarrow> int list" where
  "num_beams_of (LoadPipeline task model device (Some b)) = [b]"
| "num_beams_of e = []"

definition beams_passed :: "event list \<Rightarrow> int list" where
  "beams_passed tr = concat (map num_beams_of tr)"

text \<open>
  The text-to-text pipeline \<open>generate_questions\<close> gets when it hands the library a
  beam count: the call \<^verbatim>\<open>pipeline(task=..., model=..., device=..., num_beams=...)\<close>
  itself, with the model name fixed and the device following the probe.
\<close>

definition built_qg :: "world \<Rightarrow> int \<Rightarrow> exn + qg_pipeline" where
  "built_qg w num_beams =
     pipeline_qg w ''valhalla/t5-base-qg-hl'' (if cuda_is_available w then 0 else - 1) num_beams"

text \<open>
  What the generation step yields once the pipeline has been built or has failed to
  build: the error of the build, the error of the call, or the generated texts.
\<close>

definition generation_with :: "exn + qg_pipeline \<Rightarrow> string \<Rightarrow> int \<Rightarrow> int \<Rightarrow> exn + string list" where
  "generation_with built src max_new_tokens num_return_sequences =
     (case built of
        Inl e \<Rightarrow> Inl e
      | Inr qg \<Rightarrow>
          (case qg (''generate questions: '' @ src) max_new_tokens num_return_sequences of
             Inl e \<Rightarrow> Inl e
           | Inr outs \<Rightarrow> generated_texts outs))"

text \<open>An error that comes out of the library: from building the pipeline or from calling it.\<close>

definition library_raises :: "exn + qg_pipeline \<Rightarrow> string \<Rightarrow> int \<Rightarrow> int \<Rightarrow> exn \<Rightarrow> bool" where
  "library_raises built src max_new_tokens num_return_sequences e =
     (case built of
        Inl e' \<Rightarrow> e' = e
      | Inr qg \<Rightarrow> qg (''generate questions: '' @ src) max_new_tokens num_return_sequences = Inl e)"

section \<open>Stub worlds\<close>

text \<open>
  Worlds with stubbed pipelines, as a test of the script would set them up: the
  generator returns fixed questions, the question-answering stub answers one question,
  raises on another, returns a result without an answer on a third and a blank answer
  on anything else.
\<close>

definition stub_qg :: qg_pipeline where
  "stub_qg prompt max_new_tokens num_return_sequences =
     Inr [[(''generated_text'', ''What is the capital of France?'')]]"

definition stub_qa :: qa_pipeline where
  "stub_qa question context =
     (if question = ''What is the capital of France?''
        then Inr (PyDict [(''score'', PyInt 1), (''answer'', PyStr ''Paris'')])
      else if question = ''Who?'' then Inl (Exn RuntimeError ''model error'')
      else if question = ''Why?'' then Inr (PyDict [(''score'', PyInt 0)])
      else Inr (PyDict [(''answer'', PyStr '' '')]))"

definition stub_world :: world where
  "stub_world =
     \<lparr>cuda_is_available = False,
      pipeline_qg = (\<lambda>model device num_beams. Inr stub_qg),
      pipeline_qa = (\<lambda>model device. Inr stub_qa)\<rparr>"

text \<open>A machine that cannot fetch the weights of the question-answering model.\<close>

definition offline_world :: world where
  "offline_world =
     \<lparr>cuda_is_available = False,
      pipeline_qg = (\<lambda>model device num_beams. Inr stub_qg),
      pipeline_qa = (\<lambda>model device. Inl (Exn OSError ''cannot load the model files''))\<rparr>"

text \<open>
  A machine on which building the generation pipeline raises a \<^verbatim>\<open>ValueError\<close>, as
  \<^verbatim>\<open>transformers\<close> does when the tokenizer of the model cannot be instantiated.
\<close>

definition no_tokenizer_world :: world where
  "no_tokenizer_world =
     \<lparr>cuda_is_available = False,
      pipeline_qg = (\<lambda>model device num_beams.
         Inl (Exn ValueError ''cannot instantiate the backend tokenizer'')),
      pipeline_qa = (\<lambda>model device. Inr stub_qa)\<rparr>"

text \<open>A machine that cannot fetch the weights of the generation model.\<close>

definition no_network_world :: world where
  "no_network_world =
     \<lparr>cuda_is_available = False,
      pipeline_qg = (\<lambda>model device num_beams. Inl (Exn OSError ''cannot load the model files'')),
      pipeline_qa = (\<lambda>model device. Inr stub_qa)\<rparr>"

text \<open>A generator whose question spans two lines, and a model that answers everything.\<close>

definition multiline_qg :: qg_pipeline where
  "multiline_qg prompt max_new_tokens num_return_sequences =
     Inr [[(''generated_text'', ''What is the capital'' @ [newline] @ ''of France?'')]]"

definition paris_qa :: qa_pipeline where
  "paris_qa question context = Inr (PyDict [(''score'', PyInt 1), (''answer'', PyStr ''Paris'')])"

definition multiline_world :: world where
  "multiline_world =
     \<lparr>cuda_is_available = False,
      pipeline_qg = (\<lambda>model device num_beams. Inr multiline_qg),
      pipeline_qa = (\<lambda>model device. Inr paris_qa)\<rparr>"

text \<open>A library that builds the generation pipeline for seven beams and no other count.\<close>

definition seven_beams_world :: world where
  "seven_beams_world =
     \<lparr>cuda_is_available = False,
      pipeline_qg = (\<lambda>model device num_beams.
         if num_beams = 7 then Inr stub_qg else Inl (Exn ValueError ''unexpected number of beams'')),
      pipeline_qa = (\<lambda>model device. Inr stub_qa)\<rparr>"

definition stub_fs :: filesystem where
  "stub_fs =
     \<lparr>files = [''input.txt'' \<mapsto> Text ''Paris is the capital of France.''],
      open_w_error = (\<lambda>path. None)\<rparr>"

definition blank_fs :: filesystem where
  "blank_fs =
     \<lparr>files = [''input.txt'' \<mapsto> Text ('' '' @ [newline])],
      open_w_error = (\<lambda>path. None)\<rparr>"

definition stub_args :: args where
  "stub_args =
     \<lparr>text_file = ''input.txt'', output_file = ''output.txt'',
      num_questions = 3, max_tokens = 64\<rparr>"

section \<open>Lemmas about the loops\<close>

lemma write_loop_eq: "write_loop buf qs = buf @ concat (map (\<lambda>q. q @ [newline]) qs)"
  by (induction qs arbitrary: buf) simp_all

lemma try_body_keep_iff: "(try_body qa ctx q = Inr True) = yields_answer qa ctx q"
proof (cases "qa q ctx")
  case (Inl e)
  then show ?thesis by (simp add: try_body_def yields_answer_def)
next
  case (Inr result)
  then show ?thesis
  proof (cases result)
    case (PyDict d)
    show ?thesis
    proof (cases "map_of d ''answer''")
      case None
      with Inr PyDict show ?thesis
        by (simp add: try_body_def yields_answer_def py_strip_def)
    next
      case (Some v)
      with Inr PyDict show ?thesis
        by (cases v) (simp_all add: try_body_def yields_answer_def)
    qed
  qed (simp_all add: try_body_def yields_answer_def)
qed

lemma filter_loop_eq:
  "filter_loop qa ctx qs (acc, tr) =
     (acc @ filter (yields_answer qa ctx) qs, tr @ map (\<lambda>q. CallQA q ctx) qs)"
proof (induction qs arbitrary: acc tr)
  case Nil
  show ?case by simp
next
  case (Cons q qs)
  show ?case
  proof (cases "try_body qa ctx q")
    case (Inl e)
    then have "\<not> yields_answer qa ctx q"
      using try_body_keep_iff [of qa ctx q] by simp
    with Inl Cons show ?thesis by simp
  next
    case (Inr keep)
    then have "yields_answer qa ctx q = keep"
      using try_body_keep_iff [of qa ctx q] by simp
    with Inr Cons show ?thesis by simp
  qed
qed

lemma filter_answerable_questions_loaded:
  assumes "loaded_qa w = Inr qa"
  shows "filter_answerable_questions w qs ctx =
           ([CudaProbe,
             LoadPipeline ''question-answering'' ''distilbert-base-uncased-distilled-squad''
               (if cuda_is_available w then 0 else - 1) None] @ map (\<lambda>q. CallQA q ctx) qs,
            Inr (filter (yields_answer qa ctx) qs))"
  using assms by (simp add: filter_answerable_questions_def loaded_qa_def filter_loop_eq)

lemma filter_answerable_questions_failed:
  assumes "loaded_qa w = Inl e"
  shows "snd (filter_answerable_questions w qs ctx) = Inl e"
  using assms by (simp add: filter_answerable_questions_def loaded_qa_def)

lemma qa_calls_loaded:
  "qa_calls ([CudaProbe, LoadPipeline t m d b] @ map (\<lambda>q. CallQA q ctx) qs) =
     map (\<lambda>q. (q, ctx)) qs"
  by (induction qs) (simp_all add: qa_calls_def)

lemma dropWhile_all_iff: "(\<forall>x\<in>set (dropWhile P xs). P x) = (\<forall>x\<in>set xs. P x)"
  by (induction xs) auto

lemma py_strip_empty_iff: "(py_strip s = []) = (\<forall>c\<in>set s. py_isspace c)"
  by (simp add: py_strip_def dropWhile_all_iff)

lemma lines_of_line:
  "newline \<notin> set q \<Longrightarrow> lines_of (q @ newline # rest) = q # lines_of rest"
  by (induction q) auto

lemma lines_of_written:
  "\<forall>q\<in>set qs. newline \<notin> set q \<Longrightarrow> lines_of (concat (map (\<lambda>q. q @ [newline]) qs)) = qs"
  by (induction qs) (simp_all add: lines_of_line)

lemma length_lines_of_line:
  "length (lines_of (q @ newline # rest)) = Suc (count_list q newline) + length (lines_of rest)"
proof (induction q)
  case Nil
  show ?case by simp
next
  case (Cons c q)
  then show ?case by (cases "lines_of (q @ newline # rest)") auto
qed

lemma length_lines_of_written:
  "length (lines_of (concat (map (\<lambda>q. q @ [newline]) qs))) =
     length qs + sum_list (map (\<lambda>q. count_list q newline) qs)"
  by (induction qs) (simp_all add: length_lines_of_line)

lemma count_list_pos: "x \<in> set xs \<Longrightarrow> 0 < count_list xs x"
  by (induction xs) auto

lemma sum_list_count_pos:
  "q \<in> set qs \<Longrightarrow> newline \<in> set q \<Longrightarrow> 0 < sum_list (map (\<lambda>q. count_list q newline) qs)"
  by (induction qs) (auto simp: count_list_pos)

lemma generated_texts_error:
  "generated_texts outs = Inl e \<Longrightarrow> e = Exn KeyError (quoted ''generated_text'')"
  by (induction outs) (auto split: option.splits sum.splits)

lemma generate_questions_valid:
  assumes "1 \<le> n" and "1 \<le> m"
  shows "snd (generate_questions w src n m) = generation_with (built_qg w (max n 4)) src m n"
    and "beams_passed (fst (generate_questions w src n m)) = [max n 4]"
    and "\<exists>rest. fst (generate_questions w src n m) = CudaProbe # rest"
  using assms
  by (auto simp: generate_questions_def generation_with_def built_qg_def beams_passed_def Let_def
      split: sum.splits)

lemma generate_questions_invalid:
  assumes "n < 1 \<or> m < 1"
  shows "generate_questions w src n m = ([], Inl invalid_argument)"
  using assms by (auto simp: generate_questions_def)

lemma generation_with_error:
  assumes "generation_with built src m n = Inl e"
  shows "library_raises built src m n e \<or> e = Exn KeyError (quoted ''generated_text'')"
  using assms
  by (auto simp: generation_with_def library_raises_def split: sum.splits
      dest: generated_texts_error)

lemma main_returned_output:
  assumes "outcome (main w fs a) = Returned"
  shows "\<exists>text questions qa.
           read_text_file fs (text_file a) = Inr text \<and>
           snd (generate_questions w text (num_questions a) (max_tokens a)) = Inr questions \<and>
           loaded_qa w = Inr qa \<and>
           files (fs_after (main w fs a)) (output_file a) =
             Some (Text (concat (map (\<lambda>q. q @ [newline]) (filter (yields_answer qa text) questions))))"
proof (cases "read_text_file fs (text_file a)")
  case (Inl e)
  with assms show ?thesis by (simp add: main_def)
next
  case (Inr src)
  note rd = Inr
  show ?thesis
  proof (cases "py_strip src = []")
    case True
    with assms rd show ?thesis by (simp add: main_def)
  next
    case False
    note nb = False
    obtain tr r where g: "generate_questions w src (num_questions a) (max_tokens a) = (tr, r)"
      by (cases "generate_questions w src (num_questions a) (max_tokens a)")
    show ?thesis
    proof (cases r)
      case (Inl e)
      with assms rd nb g show ?thesis by (simp add: main_def split: if_splits)
    next
      case (Inr questions)
      note gq = Inr
      show ?thesis
      proof (cases "loaded_qa w")
        case (Inl e)
        then obtain tr' where "filter_answerable_questions w questions src = (tr', Inl e)"
          using filter_answerable_questions_failed [of w e questions src]
          by (cases "filter_answerable_questions w questions src") simp
        with assms rd nb g gq show ?thesis by (simp add: main_def)
      next
        case (Inr qa)
        note ld = Inr
        note f = filter_answerable_questions_loaded [OF ld, of questions src]
        show ?thesis
        proof (cases "open_w_error fs (output_file a)")
          case (Some e)
          with assms rd nb g gq f show ?thesis
            by (simp add: main_def write_questions_def)
        next
          case None
          with rd nb g gq f ld show ?thesis
            by (simp add: main_def write_questions_def write_loop_eq)
        qed
      qed
    qed
  qed
qed

section \<open>The output file\<close>

text \<open>
  Claim C1: after a run that completes, the output file holds exactly the questions that
  passed the filter, in order, one per line. The docstring of \<open>write_questions\<close> says
  the same (one question per line). The code writes each question verbatim and then a
  newline, so a generated question that contains a newline is spread over two lines of
  the file. The run below is such a run: one question is asked for, the generator
  returns it, the model answers it, \<open>main\<close> returns, and the file has two lines, neither of which
  is the question.
\<close>

theorem main_multiline_question_output:
  "outcome (main multiline_world stub_fs (stub_args\<lparr>num_questions := 1\<rparr>)) = Returned \<and>
   snd (filter_answerable_questions multiline_world
          [''What is the capital'' @ [newline] @ ''of France?'']
          ''Paris is the capital of France.'') =
     Inr [''What is the capital'' @ [newline] @ ''of France?''] \<and>
   files (fs_after (main multiline_world stub_fs (stub_args\<lparr>num_questions := 1\<rparr>))) ''output.txt'' =
     Some (Text (''What is the capital'' @ [newline] @ ''of France?'' @ [newline])) \<and>
   lines_of (''What is the capital'' @ [newline] @ ''of France?'' @ [newline]) =
     [''What is the capital'', ''of France?'']"
  by (simp add: main_def multiline_world_def stub_fs_def stub_args_def read_text_file_def
      py_strip_def py_isspace_def generate_questions_def multiline_qg_def
      filter_answerable_questions_def try_body_def paris_qa_def write_questions_def)

section \<open>The answerability filter\<close>

text \<open>
  Claim C2: for every list of candidate questions and every context, the filter returns
  the questions for which the question-answering pipeline, given the question and the
  context, yields an answer that is not empty once trimmed, in the order of the input.
  The pipeline is the one the function builds; the list is what it returns.
\<close>

theorem filter_answerable_questions_subsequence:
  "loaded_qa w = Inr qa \<Longrightarrow>
   snd (filter_answerable_questions w questions ctx) =
     Inr (filter (yields_answer qa ctx) questions)"
  by (simp add: filter_answerable_questions_loaded)

theorem filter_answerable_questions_subsequence_witness:
  "loaded_qa stub_world = Inr stub_qa \<and>
   snd (filter_answerable_questions stub_world
          [''What is the capital of France?'', ''Who?'', ''Why?'', ''When?'',
           ''What is the capital of France?'']
          ''Paris is the capital of France.'') =
     Inr [''What is the capital of France?'', ''What is the capital of France?'']"
proof -
  have h: "loaded_qa stub_world = Inr stub_qa"
    by (simp add: loaded_qa_def stub_world_def)
  show ?thesis
    using h filter_answerable_questions_subsequence [OF h,
        of "[''What is the capital of France?'', ''Who?'', ''Why?'', ''When?'',
             ''What is the capital of France?'']" "''Paris is the capital of France.''"]
    by (simp add: yields_answer_def stub_qa_def py_strip_def py_isspace_def)
qed

section \<open>The argument check of the generator\<close>

text \<open>
  Claim C3: the generator raises the invalid-argument error exactly when
  \<open>num_questions < 1\<close> or \<open>max_tokens < 1\<close>, and raises it before any device probe,
  pipeline load or model call. With a bad argument the run is the error and an empty
  trace, whatever the world. With good arguments the trace is not empty and the result
  is what the library gives for the pipeline built with \<open>max num_questions 4\<close> beams:
  the generator raises nothing of its own then, and an error that comes out is one the
  library raised, or the \<^verbatim>\<open>KeyError\<close> of a result without \<^verbatim>\<open>generated_text\<close>.
\<close>

theorem generate_questions_invalid_argument:
  "(generate_questions w src n m = ([], Inl invalid_argument)) = (n < 1 \<or> m < 1) \<and>
   (fst (generate_questions w src n m) = []) = (n < 1 \<or> m < 1) \<and>
   (\<not> (n < 1 \<or> m < 1) \<longrightarrow>
      snd (generate_questions w src n m) = generation_with (built_qg w (max n 4)) src m n \<and>
      (\<forall>e. snd (generate_questions w src n m) = Inl e \<longrightarrow>
         library_raises (built_qg w (max n 4)) src m n e \<or> e = Exn KeyError (quoted ''generated_text'')))"
proof (cases "n < 1 \<or> m < 1")
  case True
  then show ?thesis
    by (simp add: generate_questions_invalid)
next
  case False
  then have v: "1 \<le> n" "1 \<le> m"
    by simp_all
  obtain rest where tr: "fst (generate_questions w src n m) = CudaProbe # rest"
    using generate_questions_valid(3) [OF v] by blast
  have res: "snd (generate_questions w src n m) = generation_with (built_qg w (max n 4)) src m n"
    by (rule generate_questions_valid(1) [OF v])
  have "generate_questions w src n m \<noteq> ([], Inl invalid_argument)"
    using tr by (cases "generate_questions w src n m") auto
  with False tr res show ?thesis
    by (auto dest: generation_with_error)
qed

theorem generate_questions_invalid_argument_witness:
  "generate_questions stub_world ''Paris is the capital of France.'' 0 64 = ([], Inl invalid_argument) \<and>
   generate_questions stub_world ''Paris is the capital of France.'' 3 0 = ([], Inl invalid_argument) \<and>
   fst (generate_questions stub_world ''Paris is the capital of France.'' 1 1) \<noteq> [] \<and>
   snd (generate_questions stub_world ''Paris is the capital of France.'' 1 1) =
     Inr [''What is the capital of France?''] \<and>
   snd (generate_questions no_tokenizer_world ''Paris is the capital of France.'' 3 64) =
     Inl (Exn ValueError ''cannot instantiate the backend tokenizer'') \<and>
   library_raises (built_qg no_tokenizer_world 4) ''Paris is the capital of France.'' 64 3
     (Exn ValueError ''cannot instantiate the backend tokenizer'')"
proof -
  note a = generate_questions_invalid_argument [of stub_world "''Paris is the capital of France.''" 0 64]
  note b = generate_questions_invalid_argument [of stub_world "''Paris is the capital of France.''" 3 0]
  note c = generate_questions_invalid_argument [of stub_world "''Paris is the capital of France.''" 1 1]
  note d = generate_questions_invalid_argument [of no_tokenizer_world "''Paris is the capital of France.''" 3 64]
  have c': "generation_with (built_qg stub_world 4) ''Paris is the capital of France.'' 1 1 =
              Inr [''What is the capital of France?'']"
    by (simp add: generation_with_def built_qg_def stub_world_def stub_qg_def)
  have d': "generation_with (built_qg no_tokenizer_world 4) ''Paris is the capital of France.'' 64 3 =
              Inl (Exn ValueError ''cannot instantiate the backend tokenizer'')"
    by (simp add: generation_with_def built_qg_def no_tokenizer_world_def)
  have l: "library_raises (built_qg no_tokenizer_world 4) ''Paris is the capital of France.'' 64 3
             (Exn ValueError ''cannot instantiate the backend tokenizer'')"
    by (simp add: library_raises_def built_qg_def no_tokenizer_world_def)
  from a have 1: "generate_questions stub_world ''Paris is the capital of France.'' 0 64 = ([], Inl invalid_argument)"
    by simp
  from b have 2: "generate_questions stub_world ''Paris is the capital of France.'' 3 0 = ([], Inl invalid_argument)"
    by simp
  from c have 3: "fst (generate_questions stub_world ''Paris is the capital of France.'' 1 1) \<noteq> []"
    by simp
  from c c' have 4: "snd (generate_questions stub_world ''Paris is the capital of France.'' 1 1) =
     Inr [''What is the capital of France?'']"
    by simp
  from d d' have 5: "snd (generate_questions no_tokenizer_world ''Paris is the capital of France.'' 3 64) =
     Inl (Exn ValueError ''cannot instantiate the backend tokenizer'')"
    by simp
  from 1 2 3 4 5 l show ?thesis by blast
qed

section \<open>Failures inside the filter\<close>

text \<open>
  Claim C4, as stated: the filter never raises to its caller. It does when the
  question-answering pipeline cannot be built, since the pipeline is built outside the
  \<^verbatim>\<open>try\<close>: on a machine that cannot load the model the error leaves the function.
\<close>

theorem filter_answerable_questions_raises_offline:
  "snd (filter_answerable_questions offline_world [''What is the capital of France?'']
          ''Paris is the capital of France.'') =
     Inl (Exn OSError ''cannot load the model files'')"
  by (simp add: filter_answerable_questions_def offline_world_def)

text \<open>
  Claim C4, amended: once the question-answering pipeline has been built, the filter
  returns a list for every list of questions, every question is put to the model, and a
  question on which the model raises is dropped alone: the result is the result for the
  list without that question.
\<close>

theorem filter_answerable_questions_isolates_failures:
  assumes "loaded_qa w = Inr qa"
  shows "(\<exists>r. snd (filter_answerable_questions w qs ctx) = Inr r) \<and>
         qa_calls (fst (filter_answerable_questions w qs ctx)) = map (\<lambda>q. (q, ctx)) qs \<and>
         (\<forall>qs1 q qs2 e. qs = qs1 @ q # qs2 \<and> qa q ctx = Inl e \<longrightarrow>
            snd (filter_answerable_questions w qs ctx) =
              snd (filter_answerable_questions w (qs1 @ qs2) ctx))"
proof -
  have "\<And>q e. qa q ctx = Inl e \<Longrightarrow> \<not> yields_answer qa ctx q"
    by (simp add: yields_answer_def)
  then show ?thesis
    using assms
    by (auto simp: filter_answerable_questions_loaded qa_calls_loaded
        simp del: append.simps map_append)
qed

theorem filter_answerable_questions_isolates_failures_witness:
  "loaded_qa stub_world = Inr stub_qa \<and>
   stub_qa ''Who?'' ''Paris is the capital of France.'' = Inl (Exn RuntimeError ''model error'') \<and>
   snd (filter_answerable_questions stub_world
          [''Who?'', ''What is the capital of France?''] ''Paris is the capital of France.'') =
     Inr [''What is the capital of France?''] \<and>
   qa_calls (fst (filter_answerable_questions stub_world
          [''Who?'', ''What is the capital of France?''] ''Paris is the capital of France.'')) =
     [(''Who?'', ''Paris is the capital of France.''),
      (''What is the capital of France?'', ''Paris is the capital of France.'')]"
proof -
  have h: "loaded_qa stub_world = Inr stub_qa"
    by (simp add: loaded_qa_def stub_world_def)
  have e: "stub_qa ''Who?'' ''Paris is the capital of France.'' = Inl (Exn RuntimeError ''model error'')"
    by (simp add: stub_qa_def)
  have r: "snd (filter_answerable_questions stub_world [''What is the capital of France?'']
                  ''Paris is the capital of France.'') = Inr [''What is the capital of France?'']"
    by (simp add: filter_answerable_questions_def stub_world_def try_body_def stub_qa_def
        py_strip_def py_isspace_def)
  note t = filter_answerable_questions_isolates_failures [OF h,
      of "[''Who?'', ''What is the capital of France?'']" "''Paris is the capital of France.''"]
  from t have "snd (filter_answerable_questions stub_world
          [''Who?'', ''What is the capital of France?''] ''Paris is the capital of France.'') =
     snd (filter_answerable_questions stub_world
          ([] @ [''What is the capital of France?'']) ''Paris is the capital of France.'')"
    using e by blast
  with t h e r show ?thesis by simp
qed

section \<open>The writer\<close>

text \<open>
  Claim C5: for every list of strings and every path that can be opened for writing,
  \<open>write_questions\<close> replaces whatever the path held by the strings, each followed
  by one newline, in list order, and leaves every other path alone; writing
  \<^verbatim>\<open>["a", "b"]\<close> and then \<^verbatim>\<open>["c"]\<close> to one path leaves the file holding \<^verbatim>\<open>c\<close> and a
  newline only.
\<close>

theorem write_questions_overwrites:
  assumes "open_w_error fs p = None"
  shows "write_questions fs qs p =
           (fs\<lparr>files := (files fs)(p \<mapsto> Text (concat (map (\<lambda>q. q @ [newline]) qs)))\<rparr>, Inr ()) \<and>
         files (fst (write_questions (fst (write_questions fs [''a'', ''b''] p)) [''c''] p)) p =
           Some (Text (''c'' @ [newline]))"
  using assms by (simp add: write_questions_def write_loop_eq)

theorem write_questions_overwrites_witness:
  "open_w_error stub_fs ''output.txt'' = None \<and>
   files (fst (write_questions stub_fs [''a'', ''b''] ''output.txt'')) ''output.txt'' =
     Some (Text (''a'' @ [newline] @ ''b'' @ [newline])) \<and>
   files (fst (write_questions (fst (write_questions stub_fs [''a'', ''b''] ''output.txt''))
                 [''c''] ''output.txt'')) ''output.txt'' =
     Some (Text (''c'' @ [newline]))"
proof -
  have h: "open_w_error stub_fs ''output.txt'' = None"
    by (simp add: stub_fs_def)
  show ?thesis
    using h write_questions_overwrites [OF h, of "[''a'', ''b'']"]
    by (simp add: write_questions_def stub_fs_def)
qed

section \<open>Blank input\<close>

text \<open>
  Claim C6: when the text that was read is empty or all whitespace, \<open>main\<close> prints
  the diagnostic and leaves with exit status 1; the file system is as it was and no
  pipeline has been touched, so nothing was written.
\<close>

theorem main_blank_input:
  assumes "read_text_file fs (text_file a) = Inr src"
    and "\<forall>c\<in>set src. py_isspace c"
  shows "main w fs a =
           \<lparr>outcome = Exit 1, stdout = [''Error: input file is empty.''],
            fs_after = fs, trace = []\<rparr>"
proof -
  have "py_strip src = []"
    using assms(2) by (simp add: py_strip_empty_iff)
  with assms(1) show ?thesis
    by (simp add: main_def)
qed

theorem main_blank_input_witness:
  "read_text_file blank_fs (text_file stub_args) = Inr ('' '' @ [newline]) \<and>
   list_all py_isspace ('' '' @ [newline]) \<and>
   outcome (main stub_world blank_fs stub_args) = Exit 1 \<and>
   fs_after (main stub_world blank_fs stub_args) = blank_fs \<and>
   trace (main stub_world blank_fs stub_args) = []"
proof -
  have r: "read_text_file blank_fs (text_file stub_args) = Inr ('' '' @ [newline])"
    by (simp add: read_text_file_def blank_fs_def stub_args_def)
  have s: "\<forall>c\<in>set ('' '' @ [newline]). py_isspace c"
    by (simp add: py_isspace_def)
  show ?thesis
    using r s main_blank_input [OF r s, of stub_world]
    by (simp add: list_all_iff)
qed

section \<open>Failures of the generation step\<close>

text \<open>
  Claim C7, as stated: only the invalid-argument error of the generator is caught by
  \<open>main\<close>; every other failure of the generation step propagates. The handler is
  \<^verbatim>\<open>except ValueError\<close>, so a \<^verbatim>\<open>ValueError\<close> raised by the library while the pipeline is
  built is caught too: with valid arguments, on a machine where the tokenizer cannot be
  instantiated, the run prints the diagnostic and exits with status 1 instead of ending
  with the exception.
\<close>

theorem main_catches_library_value_error:
  "generate_questions no_tokenizer_world ''Paris is the capital of France.'' 3 64 =
     ([CudaProbe, LoadPipeline ''text2text-generation'' ''valhalla/t5-base-qg-hl'' (- 1) (Some 4)],
      Inl (Exn ValueError ''cannot instantiate the backend tokenizer'')) \<and>
   Exn ValueError ''cannot instantiate the backend tokenizer'' \<noteq> invalid_argument \<and>
   main no_tokenizer_world stub_fs stub_args =
     \<lparr>outcome = Exit 1,
      stdout = [''Error generating questions: cannot instantiate the backend tokenizer''],
      fs_after = stub_fs,
      trace = [CudaProbe,
               LoadPipeline ''text2text-generation'' ''valhalla/t5-base-qg-hl'' (- 1) (Some 4)]\<rparr>"
  by (simp add: main_def generate_questions_def no_tokenizer_world_def stub_fs_def stub_args_def
      read_text_file_def py_strip_def py_isspace_def invalid_argument_def)

text \<open>
  Claim C7, amended: when the generation step raises an error of class \<^verbatim>\<open>ValueError\<close>
  (the invalid-argument error of the generator, or one the library raises), \<open>main\<close>
  prints the diagnostic and leaves with exit status 1; an error of any other class is
  not caught and ends the run. In both cases no file is written.
\<close>

theorem main_generation_failure:
  assumes "read_text_file fs (text_file a) = Inr src"
    and "py_strip src \<noteq> []"
    and "generate_questions w src (num_questions a) (max_tokens a) = (tr, Inl e)"
  shows "main w fs a =
           (if is_ValueError e
            then \<lparr>outcome = Exit 1, stdout = [''Error generating questions: '' @ exn_str e],
                  fs_after = fs, trace = tr\<rparr>
            else \<lparr>outcome = Uncaught e, stdout = [], fs_after = fs, trace = tr\<rparr>)"
  using assms by (simp add: main_def)

theorem main_generation_failure_witness:
  "read_text_file stub_fs (text_file stub_args) = Inr ''Paris is the capital of France.'' \<and>
   py_strip ''Paris is the capital of France.'' \<noteq> [] \<and>
   generate_questions no_network_world ''Paris is the capital of France.'' 3 64 =
     ([CudaProbe, LoadPipeline ''text2text-generation'' ''valhalla/t5-base-qg-hl'' (- 1) (Some 4)],
      Inl (Exn OSError ''cannot load the model files'')) \<and>
   main no_network_world stub_fs stub_args =
     \<lparr>outcome = Uncaught (Exn OSError ''cannot load the model files''), stdout = [],
      fs_after = stub_fs,
      trace = [CudaProbe,
               LoadPipeline ''text2text-generation'' ''valhalla/t5-base-qg-hl'' (- 1) (Some 4)]\<rparr> \<and>
   generate_questions stub_world ''Paris is the capital of France.'' 0 64 = ([], Inl invalid_argument) \<and>
   main stub_world stub_fs (stub_args\<lparr>num_questions := 0\<rparr>) =
     \<lparr>outcome = Exit 1,
      stdout = [''Error generating questions: num_questions and max_tokens must be >= 1''],
      fs_after = stub_fs, trace = []\<rparr>"
proof -
  have r: "read_text_file stub_fs (text_file stub_args) = Inr ''Paris is the capital of France.''"
    by (simp add: read_text_file_def stub_fs_def stub_args_def)
  have r0: "read_text_file stub_fs (text_file (stub_args\<lparr>num_questions := 0\<rparr>)) =
              Inr ''Paris is the capital of France.''"
    by (simp add: read_text_file_def stub_fs_def stub_args_def)
  have s: "py_strip ''Paris is the capital of France.'' \<noteq> []"
    by (simp add: py_strip_def py_isspace_def)
  have g: "generate_questions no_network_world ''Paris is the capital of France.''
             (num_questions stub_args) (max_tokens stub_args) =
           ([CudaProbe, LoadPipeline ''text2text-generation'' ''valhalla/t5-base-qg-hl'' (- 1) (Some 4)],
            Inl (Exn OSError ''cannot load the model files''))"
    by (simp add: generate_questions_def no_network_world_def stub_args_def)
  have g0: "generate_questions stub_world ''Paris is the capital of France.''
              (num_questions (stub_args\<lparr>num_questions := 0\<rparr>))
              (max_tokens (stub_args\<lparr>num_questions := 0\<rparr>)) =
            ([], Inl invalid_argument)"
    by (simp add: generate_questions_def stub_args_def)
  show ?thesis
    using r s g g0 main_generation_failure [OF r s g] main_generation_failure [OF r0 s g0]
    by (simp add: stub_args_def invalid_argument_def)
qed

section \<open>The beam count\<close>

text \<open>
  Claim C8: for every \<open>num_questions \<ge> 1\<close>, the beam count the generator hands to
  the pipeline is \<open>max num_questions 4\<close>, which is at least \<open>num_questions\<close> and at
  least 4. With \<open>max_tokens \<ge> 1\<close> the result of the generator is the result of the
  pipeline the library builds for exactly that beam count, and the trace records that
  one count; with \<open>max_tokens < 1\<close> the library is not called and no count is handed
  over.
\<close>

theorem generate_questions_num_beams:
  assumes "1 \<le> n"
  shows "n \<le> max n 4 \<and> 4 \<le> max n 4 \<and>
         (\<forall>b\<in>set (beams_passed (fst (generate_questions w src n m))). b = max n 4) \<and>
         (1 \<le> m \<longrightarrow>
            snd (generate_questions w src n m) = generation_with (built_qg w (max n 4)) src m n \<and>
            beams_passed (fst (generate_questions w src n m)) = [max n 4])"
proof (cases "1 \<le> m")
  case True
  with assms show ?thesis
    by (simp add: generate_questions_valid)
next
  case False
  then have "generate_questions w src n m = ([], Inl invalid_argument)"
    by (simp add: generate_questions_invalid)
  with False show ?thesis
    by (simp add: beams_passed_def)
qed

theorem generate_questions_num_beams_witness:
  "(1::int) \<le> 7 \<and> (1::int) \<le> 64 \<and>
   snd (generate_questions seven_beams_world ''Paris is the capital of France.'' 7 64) =
     Inr [''What is the capital of France?''] \<and>
   beams_passed (fst (generate_questions seven_beams_world ''Paris is the capital of France.'' 7 64)) = [7] \<and>
   snd (generate_questions seven_beams_world ''Paris is the capital of France.'' 1 64) =
     Inl (Exn ValueError ''unexpected number of beams'') \<and>
   beams_passed (fst (generate_questions seven_beams_world ''Paris is the capital of France.'' 1 64)) = [4]"
proof -
  have h1: "(1::int) \<le> 1" and h7: "(1::int) \<le> 7" and hm: "(1::int) \<le> 64"
    by simp_all
  note t1 = generate_questions_num_beams [OF h1, of seven_beams_world
      "''Paris is the capital of France.''" 64, THEN conjunct2, THEN conjunct2, THEN conjunct2,
      rule_format, OF hm]
  note t7 = generate_questions_num_beams [OF h7, of seven_beams_world
      "''Paris is the capital of France.''" 64, THEN conjunct2, THEN conjunct2, THEN conjunct2,
      rule_format, OF hm]
  have m1: "max (1::int) 4 = 4" and m7: "max (7::int) 4 = 7"
    by simp_all
  have g7: "generation_with (built_qg seven_beams_world 7) ''Paris is the capital of France.'' 64 7 =
              Inr [''What is the capital of France?'']"
    by (simp add: generation_with_def built_qg_def seven_beams_world_def stub_qg_def)
  have g1: "generation_with (built_qg seven_beams_world 4) ''Paris is the capital of France.'' 64 1 =
              Inl (Exn ValueError ''unexpected number of beams'')"
    by (simp add: generation_with_def built_qg_def seven_beams_world_def)
  show ?thesis
    using t1 t7 g1 g7 h7 hm unfolding m1 m7 by simp
qed

section \<open>A result without an answer\<close>

text \<open>
  Claim C9: a question whose result is a dict without the key \<^verbatim>\<open>answer\<close> is dropped
  quietly: the filter still returns a list, the question is not in it, and the list is
  the one the filter returns without that question.
\<close>

theorem filter_answerable_questions_missing_answer_key:
  assumes "loaded_qa w = Inr qa"
    and "qa q ctx = Inr (PyDict d)"
    and "map_of d ''answer'' = None"
  shows "(\<exists>r. snd (filter_answerable_questions w (qs1 @ q # qs2) ctx) = Inr r \<and> q \<notin> set r) \<and>
         snd (filter_answerable_questions w (qs1 @ q # qs2) ctx) =
           snd (filter_answerable_questions w (qs1 @ qs2) ctx)"
proof -
  have "\<not> yields_answer qa ctx q"
    using assms(2,3) by (simp add: yields_answer_def)
  then show ?thesis
    using assms(1) by (simp add: filter_answerable_questions_loaded)
qed

theorem filter_answerable_questions_missing_answer_key_witness:
  "loaded_qa stub_world = Inr stub_qa \<and>
   stub_qa ''Why?'' ''Paris is the capital of France.'' = Inr (PyDict [(''score'', PyInt 0)]) \<and>
   map_of [(''score'', PyInt 0)] ''answer'' = None \<and>
   snd (filter_answerable_questions stub_world
          [''What is the capital of France?'', ''Why?'', ''What is the capital of France?'']
          ''Paris is the capital of France.'') =
     Inr [''What is the capital of France?'', ''What is the capital of France?'']"
proof -
  have h: "loaded_qa stub_world = Inr stub_qa"
    by (simp add: loaded_qa_def stub_world_def)
  have r: "stub_qa ''Why?'' ''Paris is the capital of France.'' = Inr (PyDict [(''score'', PyInt 0)])"
    by (simp add: stub_qa_def)
  have k: "map_of [(''score'', PyInt 0)] ''answer'' = None"
    by simp
  have two: "snd (filter_answerable_questions stub_world
          ([''What is the capital of France?''] @ [''What is the capital of France?''])
          ''Paris is the capital of France.'') =
     Inr [''What is the capital of France?'', ''What is the capital of France?'']"
    by (simp add: filter_answerable_questions_def stub_world_def try_body_def stub_qa_def
        py_strip_def py_isspace_def)
  show ?thesis
    using h r k two
      filter_answerable_questions_missing_answer_key [OF h r k,
        of "[''What is the capital of France?'']" "[''What is the capital of France?'']"]
    by simp
qed

section \<open>Questions that contain a newline\<close>

text \<open>
  Claim C10: the writer writes each string as it is, so when some question contains a
  newline the file has more lines than there are questions.
\<close>

theorem write_questions_embedded_newline:
  assumes "open_w_error fs p = None"
    and "q \<in> set qs"
    and "newline \<in> set q"
  shows "\<exists>content.
           files (fst (write_questions fs qs p)) p = Some (Text content) \<and>
           content = concat (map (\<lambda>q. q @ [newline]) qs) \<and>
           length qs < length (lines_of content)"
  using assms sum_list_count_pos [OF assms(2,3)]
  by (simp add: write_questions_def write_loop_eq length_lines_of_written)

theorem write_questions_embedded_newline_witness:
  "open_w_error stub_fs ''output.txt'' = None \<and>
   newline \<in> set (''a'' @ [newline] @ ''b'') \<and>
   files (fst (write_questions stub_fs [''a'' @ [newline] @ ''b''] ''output.txt'')) ''output.txt'' =
     Some (Text (''a'' @ [newline] @ ''b'' @ [newline])) \<and>
   length (lines_of (''a'' @ [newline] @ ''b'' @ [newline])) = 2"
proof -
  have h: "open_w_error stub_fs ''output.txt'' = None"
    by (simp add: stub_fs_def)
  have m: "''a'' @ [newline] @ ''b'' \<in> set [''a'' @ [newline] @ ''b'']"
    by simp
  have n: "newline \<in> set (''a'' @ [newline] @ ''b'')"
    by simp
  show ?thesis
    using h n write_questions_embedded_newline [OF h m n]
    by simp
qed

end
